theory Spec2Isabelle
  imports Main "HOL-Library.Sublist"
begin

section \<open>The metal3 deployment of the cluster-baremetal-operator\<close>

text \<open>
  A shallow embedding of \<^verbatim>\<open>provisioning/baremetal_pod.go\<close>: the rendering of the
  metal3 pod (init containers, containers, the proxy and trusted-CA pass), the
  reconcile step \<^verbatim>\<open>EnsureMetal3Deployment\<close> and the status query
  \<^verbatim>\<open>GetDeploymentState\<close>.

  Go slices are HOL lists (a nil slice and an empty slice are both \<open>[]\<close>), Go
  maps are partial functions, a pointer that may be nil is an \<open>option\<close>, and an
  \<^verbatim>\<open>error\<close> result is an \<open>err option\<close> with \<open>None\<close> for nil.
\<close>

subsection \<open>Kubernetes objects, as far as the file builds them\<close>

text \<open>\<^verbatim>\<open>corev1.EnvVarSource\<close>: the file sets either FieldRef.FieldPath or
  SecretKeyRef (secret name, key).\<close>

datatype EnvVarSource =
    FieldRef string
  | SecretKeyRef string string

record EnvVar =
  EnvVar_Name :: string
  EnvVar_Value :: string
  EnvVar_ValueFrom :: "EnvVarSource option"

record VolumeMount =
  VolumeMount_Name :: string
  MountPath :: string
  ReadOnly :: bool

record ContainerPort =
  ContainerPort_Name :: string
  ContainerPort :: int
  HostPort :: int

text \<open>\<^verbatim>\<open>Resources.Requests\<close>: the two quantities every container requests,
  kept as the strings given to \<^verbatim>\<open>resource.MustParse\<close>.\<close>

record ResourceRequests =
  ResourceCPU :: string
  ResourceMemory :: string

text \<open>\<^verbatim>\<open>corev1.Container\<close>. \<open>SecurityContext\<close> is the pointer to a security
  context in which only \<^verbatim>\<open>Privileged\<close> is set: \<open>None\<close> is nil and
  \<open>Some b\<close> is \<^verbatim>\<open>&SecurityContext{Privileged: &b}\<close>. \<open>Resources\<close> holds
  the requests, \<open>None\<close> when there are none.\<close>

record Container =
  Name :: string
  Image :: string
  Command :: "string list"
  Args :: "string list"
  Ports :: "ContainerPort list"
  Env :: "EnvVar list"
  Resources :: "ResourceRequests option"
  VolumeMounts :: "VolumeMount list"
  ImagePullPolicy :: string
  SecurityContext :: "bool option"

text \<open>\<^verbatim>\<open>configv1.Proxy\<close>: the file reads \<^verbatim>\<open>proxy.Status\<close> only.\<close>

record ProxyStatus =
  HTTPProxy :: string
  HTTPSProxy :: string
  NoProxy :: string

record Proxy =
  Proxy_Status :: ProxyStatus

subsection \<open>Library functions\<close>

text \<open>\<^verbatim>\<open>strings.Join(elems, sep)\<close>.\<close>

fun Join :: "string list \<Rightarrow> string \<Rightarrow> string" where
  "Join [] sep = ''''"
| "Join [x] sep = x"
| "Join (x # y # ys) sep = x @ sep @ Join (y # ys) sep"

subsection \<open>The proxy and trusted-CA pass\<close>

definition mountsWithTrustedCA :: "VolumeMount list \<Rightarrow> VolumeMount list" where
  "mountsWithTrustedCA mounts =
     mounts @ [\<lparr>VolumeMount_Name = ''trusted-ca'',
                MountPath = ''/etc/pki/ca-trust/extracted/pem'',
                ReadOnly = True\<rparr>]"

definition envWithProxy :: "Proxy option \<Rightarrow> EnvVar list \<Rightarrow> EnvVar list" where
  "envWithProxy proxy envVars =
     (case proxy of
        None \<Rightarrow> envVars
      | Some p \<Rightarrow>
          (let envVars1 =
                 (if HTTPProxy (Proxy_Status p) \<noteq> ''''
                  then envVars @ [\<lparr>EnvVar_Name = ''HTTP_PROXY'',
                                    EnvVar_Value = HTTPProxy (Proxy_Status p),
                                    EnvVar_ValueFrom = None\<rparr>]
                  else envVars);
               envVars2 =
                 (if HTTPSProxy (Proxy_Status p) \<noteq> ''''
                  then envVars1 @ [\<lparr>EnvVar_Name = ''HTTPS_PROXY'',
                                     EnvVar_Value = HTTPSProxy (Proxy_Status p),
                                     EnvVar_ValueFrom = None\<rparr>]
                  else envVars1);
               envVars3 =
                 (if NoProxy (Proxy_Status p) \<noteq> ''''
                  then envVars2 @ [\<lparr>EnvVar_Name = ''NO_PROXY'',
                                     EnvVar_Value = NoProxy (Proxy_Status p),
                                     EnvVar_ValueFrom = None\<rparr>]
                  else envVars2)
           in envVars3))"

text \<open>The loop of \<^verbatim>\<open>injectProxyAndCA\<close>: \<open>injectedContainers\<close> is the slice
  built so far, the last argument is what the \<^verbatim>\<open>range\<close> has still to visit.\<close>

fun injectProxyAndCA_loop ::
  "Proxy option \<Rightarrow> Container list \<Rightarrow> Container list \<Rightarrow> Container list" where
  "injectProxyAndCA_loop proxy injectedContainers [] = injectedContainers"
| "injectProxyAndCA_loop proxy injectedContainers (container # rest) =
     injectProxyAndCA_loop proxy
       (injectedContainers @
          [container\<lparr>Env := envWithProxy proxy (Env container),
                      VolumeMounts := mountsWithTrustedCA (VolumeMounts container)\<rparr>])
       rest"

definition injectProxyAndCA :: "Container list \<Rightarrow> Proxy option \<Rightarrow> Container list" where
  "injectProxyAndCA containers proxy = injectProxyAndCA_loop proxy [] containers"

subsection \<open>The provisioning configuration and the facts of a reconcile\<close>

text \<open>Modelled from the spec: the type \<^verbatim>\<open>metal3iov1alpha1.ProvisioningNetwork\<close> is
  declared in the API package, which is not among the sources at hand; the spec lists the
  modes \<open>Disabled | Managed | Unmanaged\<close>.\<close>

datatype ProvisioningNetwork =
    ProvisioningNetworkManaged
  | ProvisioningNetworkUnmanaged
  | ProvisioningNetworkDisabled

text \<open>Modelled from the spec: the network stack type is declared outside the sources at
  hand; the spec names v4, v6 and dual, the cases of the switch in
  \<^verbatim>\<open>ipOptionForMachineOsDownloader\<close>.\<close>

datatype NetworkStackType =
    NetworkStackV4
  | NetworkStackV6
  | NetworkStackDual

record PreProvisioningOSDownloadURLs =
  IsoURL :: string

text \<open>The fields of \<^verbatim>\<open>ProvisioningSpec\<close> that this file reads itself.\<close>

record ProvisioningSpec =
  ProvisioningIP :: string
  ProvisioningNetwork :: ProvisioningNetwork
  PreProvisioningOSDownloadURLs :: PreProvisioningOSDownloadURLs
  ProvisioningOSDownloadURL :: string
  VirtualMediaViaExternalNetwork :: bool
  WatchAllNamespaces :: bool

record Provisioning =
  Spec :: ProvisioningSpec

record Images =
  BaremetalOperator :: string
  Ironic :: string
  IpaDownloader :: string
  MachineOsDownloader :: string
  StaticIpManager :: string

record ProvisioningInfo =
  Images :: Images
  ProvConfig :: Provisioning
  MasterMacAddresses :: "string list"
  SSHKey :: string
  NetworkStack :: NetworkStackType
  Proxy :: "Proxy option"
  Namespace :: string

text \<open>
  What the file uses of package \<^verbatim>\<open>provisioning\<close> and does not declare itself: the
  names of environment variables and secrets, the image volume and its mount, and three
  functions of the configuration. They are parameters of the model; every result below
  holds for all their values.
  \<open>baremetalHttpPort_int32\<close> stands for \<^verbatim>\<open>int32(port)\<close> after
  \<^verbatim>\<open>port, _ := strconv.Atoi(baremetalHttpPort)\<close>.
\<close>

record pkg =
  provisioningIP :: string
  provisioningInterface :: string
  deployKernelUrl :: string
  deployRamdiskUrl :: string
  ironicEndpoint :: string
  ironicInspectorEndpoint :: string
  httpPort :: string
  dhcpRange :: string
  machineImageUrl :: string
  ipOptions :: string
  httpPortName :: string
  baremetalHttpPort_int32 :: int
  baremetalSecretName :: string
  baremetalSecretKey :: string
  pullSecretName :: string
  openshiftConfigSecretKey :: string
  ironicSecretName :: string
  ironicrpcSecretName :: string
  inspectorSecretName :: string
  ironicHtpasswdKey :: string
  stateService :: string
  imageVolumeMount :: VolumeMount
  imageVolume_Name :: string
  getMetal3DeploymentConfig :: "string \<Rightarrow> ProvisioningSpec \<Rightarrow> string option"
  getPreProvisioningOSDownloadURLs :: "ProvisioningSpec \<Rightarrow> string list"
  isCoreOSIPAAvailable :: "ProvisioningSpec \<Rightarrow> bool"

subsection \<open>Constants and package variables\<close>

definition metal3AppName :: string where "metal3AppName = ''metal3''"
definition baremetalDeploymentName :: string where "baremetalDeploymentName = ''metal3''"
definition baremetalSharedVolume :: string where "baremetalSharedVolume = ''metal3-shared''"
definition metal3AuthRootDir :: string where "metal3AuthRootDir = ''/auth''"
definition metal3TlsRootDir :: string where "metal3TlsRootDir = ''/certs''"
definition ironicCredentialsVolume :: string where
  "ironicCredentialsVolume = ''metal3-ironic-basic-auth''"
definition ironicrpcCredentialsVolume :: string where
  "ironicrpcCredentialsVolume = ''metal3-ironic-rpc-basic-auth''"
definition inspectorCredentialsVolume :: string where
  "inspectorCredentialsVolume = ''metal3-inspector-basic-auth''"
definition ironicTlsVolume :: string where "ironicTlsVolume = ''metal3-ironic-tls''"
definition inspectorTlsVolume :: string where "inspectorTlsVolume = ''metal3-inspector-tls''"
definition htpasswdEnvVar :: string where "htpasswdEnvVar = ''HTTP_BASIC_HTPASSWD''"
definition mariadbPwdEnvVar :: string where "mariadbPwdEnvVar = ''MARIADB_PASSWORD''"
definition ironicInsecureEnvVar :: string where "ironicInsecureEnvVar = ''IRONIC_INSECURE''"
definition inspectorInsecureEnvVar :: string where
  "inspectorInsecureEnvVar = ''IRONIC_INSPECTOR_INSECURE''"
definition ironicCertEnvVar :: string where "ironicCertEnvVar = ''IRONIC_CACERT_FILE''"
definition sshKeyEnvVar :: string where "sshKeyEnvVar = ''IRONIC_RAMDISK_SSH_KEY''"
definition externalIpEnvVar :: string where "externalIpEnvVar = ''IRONIC_EXTERNAL_IP''"
definition cboOwnedAnnotation :: string where
  "cboOwnedAnnotation = ''baremetal.openshift.io/owned''"
definition cboLabelName :: string where
  "cboLabelName = ''baremetal.openshift.io/cluster-baremetal-operator''"
definition pullSecretEnvVar :: string where "pullSecretEnvVar = ''IRONIC_AGENT_PULL_SECRET''"

text \<open>\<^verbatim>\<open>corev1.TLSCertKey\<close>, the constant of the Kubernetes API.\<close>

definition TLSCertKey :: string where "TLSCertKey = ''tls.crt''"

text \<open>\<^verbatim>\<open>deploymentRolloutTimeout = 5 * time.Minute\<close>; a \<^verbatim>\<open>time.Duration\<close>
  counts nanoseconds.\<close>

definition Minute :: int where "Minute = 60 * 1000000000"
definition deploymentRolloutTimeout :: int where "deploymentRolloutTimeout = 5 * Minute"

definition sharedVolumeMount :: VolumeMount where
  "sharedVolumeMount =
     \<lparr>VolumeMount_Name = baremetalSharedVolume, MountPath = ''/shared'', ReadOnly = False\<rparr>"

definition ironicCredentialsMount :: VolumeMount where
  "ironicCredentialsMount =
     \<lparr>VolumeMount_Name = ironicCredentialsVolume,
      MountPath = metal3AuthRootDir @ ''/ironic'', ReadOnly = True\<rparr>"

definition rpcCredentialsMount :: VolumeMount where
  "rpcCredentialsMount =
     \<lparr>VolumeMount_Name = ironicrpcCredentialsVolume,
      MountPath = metal3AuthRootDir @ ''/ironic-rpc'', ReadOnly = True\<rparr>"

definition inspectorCredentialsMount :: VolumeMount where
  "inspectorCredentialsMount =
     \<lparr>VolumeMount_Name = inspectorCredentialsVolume,
      MountPath = metal3AuthRootDir @ ''/ironic-inspector'', ReadOnly = True\<rparr>"

definition ironicTlsMount :: VolumeMount where
  "ironicTlsMount =
     \<lparr>VolumeMount_Name = ironicTlsVolume,
      MountPath = metal3TlsRootDir @ ''/ironic'', ReadOnly = True\<rparr>"

definition inspectorTlsMount :: VolumeMount where
  "inspectorTlsMount =
     \<lparr>VolumeMount_Name = inspectorTlsVolume,
      MountPath = metal3TlsRootDir @ ''/ironic-inspector'', ReadOnly = True\<rparr>"

definition mariadbPassword :: "pkg \<Rightarrow> EnvVar" where
  "mariadbPassword P =
     \<lparr>EnvVar_Name = mariadbPwdEnvVar, EnvVar_Value = [],
      EnvVar_ValueFrom = Some (SecretKeyRef (baremetalSecretName P) (baremetalSecretKey P))\<rparr>"

definition pullSecret :: "pkg \<Rightarrow> EnvVar" where
  "pullSecret P =
     \<lparr>EnvVar_Name = pullSecretEnvVar, EnvVar_Value = [],
      EnvVar_ValueFrom = Some (SecretKeyRef (pullSecretName P) (openshiftConfigSecretKey P))\<rparr>"

subsection \<open>Environment variables\<close>

definition buildEnvVar :: "pkg \<Rightarrow> string \<Rightarrow> ProvisioningSpec \<Rightarrow> EnvVar" where
  "buildEnvVar P name baremetalProvisioningConfig =
     (case getMetal3DeploymentConfig P name baremetalProvisioningConfig of
        Some v \<Rightarrow> \<lparr>EnvVar_Name = name, EnvVar_Value = v, EnvVar_ValueFrom = None\<rparr>
      | None \<Rightarrow>
          if name = provisioningIP P \<and>
             ProvisioningNetwork baremetalProvisioningConfig = ProvisioningNetworkDisabled
          then \<lparr>EnvVar_Name = name, EnvVar_Value = [],
                EnvVar_ValueFrom = Some (FieldRef ''status.hostIP'')\<rparr>
          else \<lparr>EnvVar_Name = name, EnvVar_Value = [], EnvVar_ValueFrom = None\<rparr>)"

definition setIronicHtpasswdHash :: "pkg \<Rightarrow> string \<Rightarrow> string \<Rightarrow> EnvVar" where
  "setIronicHtpasswdHash P name secretName =
     \<lparr>EnvVar_Name = name, EnvVar_Value = [],
      EnvVar_ValueFrom = Some (SecretKeyRef secretName (ironicHtpasswdKey P))\<rparr>"

definition setIronicExternalIp :: "string \<Rightarrow> ProvisioningSpec \<Rightarrow> EnvVar" where
  "setIronicExternalIp name config =
     (if ProvisioningNetwork config \<noteq> ProvisioningNetworkDisabled \<and>
         VirtualMediaViaExternalNetwork config
      then \<lparr>EnvVar_Name = name, EnvVar_Value = [],
            EnvVar_ValueFrom = Some (FieldRef ''status.hostIP'')\<rparr>
      else \<lparr>EnvVar_Name = name, EnvVar_Value = [], EnvVar_ValueFrom = None\<rparr>)"

definition getWatchNamespace :: "ProvisioningSpec \<Rightarrow> EnvVar" where
  "getWatchNamespace config =
     (if WatchAllNamespaces config
      then \<lparr>EnvVar_Name = ''WATCH_NAMESPACE'', EnvVar_Value = [], EnvVar_ValueFrom = None\<rparr>
      else \<lparr>EnvVar_Name = ''WATCH_NAMESPACE'', EnvVar_Value = [],
            EnvVar_ValueFrom = Some (FieldRef ''metadata.namespace'')\<rparr>)"

definition buildSSHKeyEnvVar :: "string \<Rightarrow> EnvVar" where
  "buildSSHKeyEnvVar sshKey =
     \<lparr>EnvVar_Name = sshKeyEnvVar, EnvVar_Value = sshKey, EnvVar_ValueFrom = None\<rparr>"

definition envWithMasterMacAddresses :: "EnvVar list \<Rightarrow> string list \<Rightarrow> EnvVar list" where
  "envWithMasterMacAddresses envVars macs =
     envVars @ [\<lparr>EnvVar_Name = ''PROVISIONING_MACS'', EnvVar_Value = Join macs '','',
                 EnvVar_ValueFrom = None\<rparr>]"

subsection \<open>Init containers\<close>

definition createInitContainerIpaDownloader :: "pkg \<Rightarrow> Images \<Rightarrow> Container" where
  "createInitContainerIpaDownloader P images =
     \<lparr>Name = ''metal3-ipa-downloader'',
      Image = IpaDownloader images,
      Command = [''/usr/local/bin/get-resource.sh''],
      Args = [],
      Ports = [],
      Env = [],
      Resources = Some \<lparr>ResourceCPU = ''10m'', ResourceMemory = ''50Mi''\<rparr>,
      VolumeMounts = [imageVolumeMount P],
      ImagePullPolicy = ''IfNotPresent'',
      SecurityContext = Some True\<rparr>"

definition createInitContainerConfigureCoreOSIPA :: "pkg \<Rightarrow> ProvisioningInfo \<Rightarrow> Container" where
  "createInitContainerConfigureCoreOSIPA P info =
     (let config = Spec (ProvConfig info);
          initContainer =
            \<lparr>Name = ''metal3-configure-coreos-ipa'',
             Image = Ironic (Images info),
             Command = [''/bin/configure-coreos-ipa''],
             Args = [],
             Ports = [],
             Env = [buildEnvVar P (provisioningIP P) config,
                    buildEnvVar P (provisioningInterface P) config,
                    buildSSHKeyEnvVar (SSHKey info),
                    pullSecret P],
             Resources = Some \<lparr>ResourceCPU = ''10m'', ResourceMemory = ''50Mi''\<rparr>,
             VolumeMounts = [sharedVolumeMount, imageVolumeMount P,
                             ironicCredentialsMount, ironicTlsMount],
             ImagePullPolicy = ''IfNotPresent'',
             SecurityContext = Some True\<rparr>
      in initContainer\<lparr>Env := envWithMasterMacAddresses (Env initContainer)
                                   (MasterMacAddresses info)\<rparr>)"

definition ipOptionForMachineOsDownloader :: "ProvisioningInfo \<Rightarrow> string" where
  "ipOptionForMachineOsDownloader info =
     (case NetworkStack info of
        NetworkStackV4 \<Rightarrow> ''ip=dhcp''
      | NetworkStackV6 \<Rightarrow> ''ip=dhcp6''
      | NetworkStackDual \<Rightarrow> [])"

definition createInitContainerMachineOsDownloader ::
  "pkg \<Rightarrow> ProvisioningInfo \<Rightarrow> string \<Rightarrow> bool \<Rightarrow> bool \<Rightarrow> Container" where
  "createInitContainerMachineOsDownloader P info imageURLs useLiveImages setIpOptions =
     (let command = (if useLiveImages then ''/usr/local/bin/get-live-images.sh''
                     else ''/usr/local/bin/get-resource.sh'');
          env0 = [\<lparr>EnvVar_Name = machineImageUrl P, EnvVar_Value = imageURLs,
                   EnvVar_ValueFrom = None\<rparr>];
          env = (if setIpOptions
                 then env0 @ [\<lparr>EnvVar_Name = ipOptions P,
                               EnvVar_Value = ipOptionForMachineOsDownloader info,
                               EnvVar_ValueFrom = None\<rparr>]
                 else env0)
      in \<lparr>Name = ''metal3-machine-os-downloader'',
          Image = MachineOsDownloader (Images info),
          Command = [command],
          Args = [],
          Ports = [],
          Env = env,
          Resources = Some \<lparr>ResourceCPU = ''10m'', ResourceMemory = ''50Mi''\<rparr>,
          VolumeMounts = [imageVolumeMount P],
          ImagePullPolicy = ''IfNotPresent'',
          SecurityContext = Some True\<rparr>)"

definition createInitContainerStaticIpSet :: "pkg \<Rightarrow> Images \<Rightarrow> ProvisioningSpec \<Rightarrow> Container" where
  "createInitContainerStaticIpSet P images config =
     \<lparr>Name = ''metal3-static-ip-set'',
      Image = StaticIpManager images,
      Command = [''/set-static-ip''],
      Args = [],
      Ports = [],
      Env = [buildEnvVar P (provisioningIP P) config,
             buildEnvVar P (provisioningInterface P) config],
      Resources = Some \<lparr>ResourceCPU = ''10m'', ResourceMemory = ''50Mi''\<rparr>,
      VolumeMounts = [],
      ImagePullPolicy = ''IfNotPresent'',
      SecurityContext = Some True\<rparr>"

text \<open>The slice \<^verbatim>\<open>initContainers\<close> of \<^verbatim>\<open>newMetal3InitContainers\<close> as it
  stands before the final pass: one conditional append after the other.\<close>

definition newMetal3InitContainers_assembled :: "pkg \<Rightarrow> ProvisioningInfo \<Rightarrow> Container list" where
  "newMetal3InitContainers_assembled P info =
     (let config = Spec (ProvConfig info);
          initContainers0 = [];
          initContainers1 =
            (if ProvisioningIP config \<noteq> [] \<and>
                ProvisioningNetwork config \<noteq> ProvisioningNetworkDisabled
             then initContainers0 @ [createInitContainerStaticIpSet P (Images info) config]
             else initContainers0);
          liveURLs = getPreProvisioningOSDownloadURLs P config;
          initContainers2 =
            (if length liveURLs > 0
             then (let withDownloader =
                         initContainers1 @
                           [createInitContainerMachineOsDownloader P info
                              (Join liveURLs '','') True True]
                   in if IsoURL (PreProvisioningOSDownloadURLs config) \<noteq> []
                      then withDownloader @ [createInitContainerConfigureCoreOSIPA P info]
                      else withDownloader)
             else initContainers1);
          initContainers3 =
            (if ProvisioningOSDownloadURL config \<noteq> []
             then initContainers2 @
                    [createInitContainerMachineOsDownloader P info
                       (ProvisioningOSDownloadURL config) False True]
             else initContainers2);
          initContainers4 =
            (if \<not> isCoreOSIPAAvailable P config
             then initContainers3 @ [createInitContainerIpaDownloader P (Images info)]
             else initContainers3)
      in initContainers4)"

definition newMetal3InitContainers :: "pkg \<Rightarrow> ProvisioningInfo \<Rightarrow> Container list" where
  "newMetal3InitContainers P info =
     injectProxyAndCA (newMetal3InitContainers_assembled P info) (Proxy info)"

subsection \<open>Containers\<close>

definition createContainerMetal3BaremetalOperator ::
  "pkg \<Rightarrow> Images \<Rightarrow> ProvisioningSpec \<Rightarrow> Container" where
  "createContainerMetal3BaremetalOperator P images config =
     \<lparr>Name = ''metal3-baremetal-operator'',
      Image = BaremetalOperator images,
      Command = [''/baremetal-operator''],
      Args = [''--health-addr'', '':9446''],
      Ports = [\<lparr>ContainerPort_Name = ''metrics'', ContainerPort = 60000, HostPort = 60000\<rparr>],
      Env = [getWatchNamespace config,
             \<lparr>EnvVar_Name = ''POD_NAMESPACE'', EnvVar_Value = [],
              EnvVar_ValueFrom = Some (FieldRef ''metadata.namespace'')\<rparr>,
             \<lparr>EnvVar_Name = ''POD_NAME'', EnvVar_Value = [],
              EnvVar_ValueFrom = Some (FieldRef ''metadata.name'')\<rparr>,
             \<lparr>EnvVar_Name = ''OPERATOR_NAME'', EnvVar_Value = ''baremetal-operator'',
              EnvVar_ValueFrom = None\<rparr>,
             \<lparr>EnvVar_Name = ironicCertEnvVar,
              EnvVar_Value = metal3TlsRootDir @ ''/ironic/'' @ TLSCertKey,
              EnvVar_ValueFrom = None\<rparr>,
             \<lparr>EnvVar_Name = ironicInsecureEnvVar, EnvVar_Value = ''true'',
              EnvVar_ValueFrom = None\<rparr>,
             buildEnvVar P (deployKernelUrl P) config,
             buildEnvVar P (deployRamdiskUrl P) config,
             buildEnvVar P (ironicEndpoint P) config,
             buildEnvVar P (ironicInspectorEndpoint P) config,
             \<lparr>EnvVar_Name = ''METAL3_AUTH_ROOT_DIR'', EnvVar_Value = metal3AuthRootDir,
              EnvVar_ValueFrom = None\<rparr>],
      Resources = Some \<lparr>ResourceCPU = ''20m'', ResourceMemory = ''50Mi''\<rparr>,
      VolumeMounts = [ironicCredentialsMount, inspectorCredentialsMount, ironicTlsMount],
      ImagePullPolicy = ''IfNotPresent'',
      SecurityContext = None\<rparr>"

definition createContainerMetal3Dnsmasq ::
  "pkg \<Rightarrow> Images \<Rightarrow> ProvisioningSpec \<Rightarrow> string list \<Rightarrow> Container" where
  "createContainerMetal3Dnsmasq P images config macs =
     (let container =
            \<lparr>Name = ''metal3-dnsmasq'',
             Image = Ironic images,
             Command = [''/bin/rundnsmasq''],
             Args = [],
             Ports = [],
             Env = [buildEnvVar P (httpPort P) config,
                    buildEnvVar P (provisioningInterface P) config,
                    buildEnvVar P (dhcpRange P) config],
             Resources = Some \<lparr>ResourceCPU = ''5m'', ResourceMemory = ''5Mi''\<rparr>,
             VolumeMounts = [sharedVolumeMount, imageVolumeMount P],
             ImagePullPolicy = ''IfNotPresent'',
             SecurityContext = Some True\<rparr>
      in container\<lparr>Env := envWithMasterMacAddresses (Env container) macs\<rparr>)"

definition createContainerMetal3Mariadb :: "pkg \<Rightarrow> Images \<Rightarrow> Container" where
  "createContainerMetal3Mariadb P images =
     \<lparr>Name = ''metal3-mariadb'',
      Image = Ironic images,
      Command = [''/bin/runmariadb''],
      Args = [],
      Ports = [\<lparr>ContainerPort_Name = ''mysql'', ContainerPort = 3306, HostPort = 3306\<rparr>],
      Env = [mariadbPassword P],
      Resources = Some \<lparr>ResourceCPU = ''15m'', ResourceMemory = ''80Mi''\<rparr>,
      VolumeMounts = [sharedVolumeMount],
      ImagePullPolicy = ''IfNotPresent'',
      SecurityContext = Some True\<rparr>"

definition createContainerMetal3Httpd ::
  "pkg \<Rightarrow> Images \<Rightarrow> ProvisioningSpec \<Rightarrow> string list \<Rightarrow> string \<Rightarrow> Container" where
  "createContainerMetal3Httpd P images config macs sshKey =
     (let port = baremetalHttpPort_int32 P;
          container =
            \<lparr>Name = ''metal3-httpd'',
             Image = Ironic images,
             Command = [''/bin/runhttpd''],
             Args = [],
             Ports = [\<lparr>ContainerPort_Name = httpPortName P, ContainerPort = port,
                       HostPort = port\<rparr>],
             Env = [buildEnvVar P (httpPort P) config,
                    buildEnvVar P (provisioningIP P) config,
                    buildEnvVar P (provisioningInterface P) config,
                    buildSSHKeyEnvVar sshKey],
             Resources = Some \<lparr>ResourceCPU = ''5m'', ResourceMemory = ''50Mi''\<rparr>,
             VolumeMounts = [sharedVolumeMount, imageVolumeMount P, ironicTlsMount,
                             inspectorTlsMount],
             ImagePullPolicy = ''IfNotPresent'',
             SecurityContext = Some True\<rparr>
      in container\<lparr>Env := envWithMasterMacAddresses (Env container) macs\<rparr>)"

definition createContainerMetal3IronicConductor ::
  "pkg \<Rightarrow> Images \<Rightarrow> ProvisioningSpec \<Rightarrow> string list \<Rightarrow> string \<Rightarrow> Container" where
  "createContainerMetal3IronicConductor P images config macs sshKey =
     (let container =
            \<lparr>Name = ''metal3-ironic-conductor'',
             Image = Ironic images,
             Command = [''/bin/runironic-conductor''],
             Args = [],
             Ports = [\<lparr>ContainerPort_Name = ''json-rpc'', ContainerPort = 8089,
                       HostPort = 8089\<rparr>],
             Env = [mariadbPassword P,
                    \<lparr>EnvVar_Name = ironicInsecureEnvVar, EnvVar_Value = ''true'',
                     EnvVar_ValueFrom = None\<rparr>,
                    \<lparr>EnvVar_Name = inspectorInsecureEnvVar, EnvVar_Value = ''true'',
                     EnvVar_ValueFrom = None\<rparr>,
                    buildEnvVar P (httpPort P) config,
                    buildEnvVar P (provisioningIP P) config,
                    buildEnvVar P (provisioningInterface P) config,
                    buildSSHKeyEnvVar sshKey,
                    setIronicHtpasswdHash P htpasswdEnvVar (ironicrpcSecretName P),
                    setIronicExternalIp externalIpEnvVar config],
             Resources = Some \<lparr>ResourceCPU = ''50m'', ResourceMemory = ''500Mi''\<rparr>,
             VolumeMounts = [sharedVolumeMount, imageVolumeMount P, inspectorCredentialsMount,
                             rpcCredentialsMount, ironicTlsMount, inspectorTlsMount],
             ImagePullPolicy = ''IfNotPresent'',
             SecurityContext = Some True\<rparr>
      in container\<lparr>Env := envWithMasterMacAddresses (Env container) macs\<rparr>)"

definition createContainerMetal3IronicApi ::
  "pkg \<Rightarrow> Images \<Rightarrow> ProvisioningSpec \<Rightarrow> string list \<Rightarrow> Container" where
  "createContainerMetal3IronicApi P images config macs =
     (let container =
            \<lparr>Name = ''metal3-ironic-api'',
             Image = Ironic images,
             Command = [''/bin/runironic-api''],
             Args = [],
             Ports = [\<lparr>ContainerPort_Name = ''ironic'', ContainerPort = 6385,
                       HostPort = 6385\<rparr>],
             Env = [mariadbPassword P,
                    \<lparr>EnvVar_Name = ironicInsecureEnvVar, EnvVar_Value = ''true'',
                     EnvVar_ValueFrom = None\<rparr>,
                    buildEnvVar P (httpPort P) config,
                    buildEnvVar P (provisioningIP P) config,
                    buildEnvVar P (provisioningInterface P) config,
                    setIronicHtpasswdHash P htpasswdEnvVar (ironicSecretName P),
                    setIronicExternalIp externalIpEnvVar config],
             Resources = Some \<lparr>ResourceCPU = ''150m'', ResourceMemory = ''300Mi''\<rparr>,
             VolumeMounts = [sharedVolumeMount, rpcCredentialsMount, ironicTlsMount],
             ImagePullPolicy = ''IfNotPresent'',
             SecurityContext = Some True\<rparr>
      in container\<lparr>Env := envWithMasterMacAddresses (Env container) macs\<rparr>)"

definition createContainerIronicDeployRamdiskLogs :: "Images \<Rightarrow> Container" where
  "createContainerIronicDeployRamdiskLogs images =
     \<lparr>Name = ''ironic-deploy-ramdisk-logs'',
      Image = Ironic images,
      Command = [''/bin/runlogwatch.sh''],
      Args = [],
      Ports = [],
      Env = [],
      Resources = Some \<lparr>ResourceCPU = ''10m'', ResourceMemory = ''5Mi''\<rparr>,
      VolumeMounts = [sharedVolumeMount],
      ImagePullPolicy = ''IfNotPresent'',
      SecurityContext = Some True\<rparr>"

definition createContainerMetal3IronicInspector ::
  "pkg \<Rightarrow> Images \<Rightarrow> ProvisioningSpec \<Rightarrow> string list \<Rightarrow> Container" where
  "createContainerMetal3IronicInspector P images config macs =
     (let container =
            \<lparr>Name = ''metal3-ironic-inspector'',
             Image = Ironic images,
             Command = [''/bin/runironic-inspector''],
             Args = [],
             Ports = [\<lparr>ContainerPort_Name = ''inspector'', ContainerPort = 5050,
                       HostPort = 5050\<rparr>],
             Env = [\<lparr>EnvVar_Name = ironicInsecureEnvVar, EnvVar_Value = ''true'',
                     EnvVar_ValueFrom = None\<rparr>,
                    buildEnvVar P (provisioningIP P) config,
                    buildEnvVar P (provisioningInterface P) config,
                    setIronicHtpasswdHash P htpasswdEnvVar (inspectorSecretName P)],
             Resources = Some \<lparr>ResourceCPU = ''40m'', ResourceMemory = ''100Mi''\<rparr>,
             VolumeMounts = [sharedVolumeMount, ironicCredentialsMount, ironicTlsMount,
                             inspectorTlsMount],
             ImagePullPolicy = ''IfNotPresent'',
             SecurityContext = Some True\<rparr>
      in container\<lparr>Env := envWithMasterMacAddresses (Env container) macs\<rparr>)"

definition createContainerIronicInspectorRamdiskLogs :: "Images \<Rightarrow> Container" where
  "createContainerIronicInspectorRamdiskLogs images =
     \<lparr>Name = ''ironic-inspector-ramdisk-logs'',
      Image = Ironic images,
      Command = [''/bin/runlogwatch.sh''],
      Args = [],
      Ports = [],
      Env = [],
      Resources = Some \<lparr>ResourceCPU = ''10m'', ResourceMemory = ''5Mi''\<rparr>,
      VolumeMounts = [sharedVolumeMount],
      ImagePullPolicy = ''IfNotPresent'',
      SecurityContext = Some True\<rparr>"

definition createContainerMetal3StaticIpManager ::
  "pkg \<Rightarrow> Images \<Rightarrow> ProvisioningSpec \<Rightarrow> string list \<Rightarrow> Container" where
  "createContainerMetal3StaticIpManager P images config macs =
     (let container =
            \<lparr>Name = ''metal3-static-ip-manager'',
             Image = StaticIpManager images,
             Command = [''/refresh-static-ip''],
             Args = [],
             Ports = [],
             Env = [buildEnvVar P (provisioningIP P) config,
                    buildEnvVar P (provisioningInterface P) config],
             Resources = Some \<lparr>ResourceCPU = ''5m'', ResourceMemory = ''50Mi''\<rparr>,
             VolumeMounts = [],
             ImagePullPolicy = ''IfNotPresent'',
             SecurityContext = Some True\<rparr>
      in container\<lparr>Env := envWithMasterMacAddresses (Env container) macs\<rparr>)"

text \<open>The slice \<^verbatim>\<open>containers\<close> of \<^verbatim>\<open>newMetal3Containers\<close> before the final
  pass.\<close>

definition newMetal3Containers_assembled :: "pkg \<Rightarrow> ProvisioningInfo \<Rightarrow> Container list" where
  "newMetal3Containers_assembled P info =
     (let config = Spec (ProvConfig info);
          containers0 =
            [createContainerMetal3BaremetalOperator P (Images info) config,
             createContainerMetal3Mariadb P (Images info),
             createContainerMetal3Httpd P (Images info) config (MasterMacAddresses info)
               (SSHKey info),
             createContainerMetal3IronicConductor P (Images info) config
               (MasterMacAddresses info) (SSHKey info),
             createContainerIronicInspectorRamdiskLogs (Images info),
             createContainerMetal3IronicApi P (Images info) config (MasterMacAddresses info),
             createContainerIronicDeployRamdiskLogs (Images info),
             createContainerMetal3IronicInspector P (Images info) config
               (MasterMacAddresses info)];
          containers1 =
            (if ProvisioningIP config \<noteq> [] \<and>
                ProvisioningNetwork config \<noteq> ProvisioningNetworkDisabled
             then containers0 @
                    [createContainerMetal3StaticIpManager P (Images info) config
                       (MasterMacAddresses info)]
             else containers0);
          containers2 =
            (if ProvisioningNetwork config \<noteq> ProvisioningNetworkDisabled
             then containers1 @
                    [createContainerMetal3Dnsmasq P (Images info) config
                       (MasterMacAddresses info)]
             else containers1)
      in containers2)"

definition newMetal3Containers :: "pkg \<Rightarrow> ProvisioningInfo \<Rightarrow> Container list" where
  "newMetal3Containers P info =
     injectProxyAndCA (newMetal3Containers_assembled P info) (Proxy info)"

subsection \<open>The deployment object\<close>

text \<open>\<^verbatim>\<open>metav1.LabelSelector\<close>. With the labels a partial function and the expressions
  a list, equality of two \<open>LabelSelector option\<close> values is what
  \<^verbatim>\<open>equality.Semantic.DeepEqual\<close> decides on two selector pointers: a nil pointer equals
  only a nil pointer, and nil and empty maps or slices are not told apart.\<close>

record LabelSelectorRequirement =
  Requirement_Key :: string
  Requirement_Operator :: string
  Requirement_Values :: "string list"

record LabelSelector =
  MatchLabels :: "string \<rightharpoonup> string"
  MatchExpressions :: "LabelSelectorRequirement list"

record Toleration =
  Toleration_Key :: string
  Toleration_Effect :: string
  Toleration_Operator :: string
  TolerationSeconds :: "int option"

text \<open>The pod template: the container lists and the pod-level settings. The volume
  list \<^verbatim>\<open>metal3Volumes\<close> is kept by the names of its volumes, in order; the image
  volume comes from \<^verbatim>\<open>imageVolume()\<close>, declared outside this file, so its name
  is the parameter \<open>imageVolume_Name\<close>.\<close>

record PodTemplateSpec =
  Template_Annotations :: "string \<rightharpoonup> string"
  Template_Labels :: "string \<rightharpoonup> string"
  Volumes :: "string list"
  InitContainers :: "Container list"
  Containers :: "Container list"
  HostNetwork :: bool
  DNSPolicy :: string
  PriorityClassName :: string
  NodeSelector :: "string \<rightharpoonup> string"
  RunAsNonRoot :: "bool option"
  ServiceAccountName :: string
  Tolerations :: "Toleration list"

datatype DeploymentConditionType =
    DeploymentAvailable
  | DeploymentProgressing
  | DeploymentReplicaFailure

datatype ConditionStatus =
    ConditionTrue
  | ConditionFalse
  | ConditionUnknown

record DeploymentCondition =
  Condition_Type :: DeploymentConditionType
  Condition_Status :: ConditionStatus

text \<open>\<^verbatim>\<open>appsv1.Deployment\<close>: metadata, spec and the conditions of its status.
  \<open>ControllerReference\<close> is the owner that \<^verbatim>\<open>SetControllerReference\<close> records.\<close>

record Deployment =
  Deployment_Name :: string
  Deployment_Namespace :: string
  Deployment_Annotations :: "string \<rightharpoonup> string"
  Deployment_Labels :: "string \<rightharpoonup> string"
  ControllerReference :: "Provisioning option"
  Replicas :: "int option"
  Selector :: "LabelSelector option"
  Template :: PodTemplateSpec
  Strategy :: string
  Conditions :: "DeploymentCondition list"

definition podTemplateAnnotations :: "string \<rightharpoonup> string" where
  "podTemplateAnnotations =
     [''target.workload.openshift.io/management'' \<mapsto>
        ''{\"effect\": \"PreferredDuringScheduling\"}'']"

definition metal3Volumes :: "pkg \<Rightarrow> string list" where
  "metal3Volumes P =
     [baremetalSharedVolume, imageVolume_Name P, ironicCredentialsVolume,
      ironicrpcCredentialsVolume, inspectorCredentialsVolume, ''trusted-ca'',
      ironicTlsVolume, inspectorTlsVolume]"

definition newMetal3PodTemplateSpec ::
  "pkg \<Rightarrow> ProvisioningInfo \<Rightarrow> (string \<rightharpoonup> string) \<Rightarrow> PodTemplateSpec" where
  "newMetal3PodTemplateSpec P info labels =
     (let initContainers = newMetal3InitContainers P info;
          containers = newMetal3Containers P info;
          tolerations =
            [\<lparr>Toleration_Key = ''node-role.kubernetes.io/master'',
              Toleration_Effect = ''NoSchedule'', Toleration_Operator = ''Exists'',
              TolerationSeconds = None\<rparr>,
             \<lparr>Toleration_Key = ''CriticalAddonsOnly'',
              Toleration_Effect = [], Toleration_Operator = ''Exists'',
              TolerationSeconds = None\<rparr>,
             \<lparr>Toleration_Key = ''node.kubernetes.io/not-ready'',
              Toleration_Effect = ''NoExecute'', Toleration_Operator = ''Exists'',
              TolerationSeconds = Some 120\<rparr>,
             \<lparr>Toleration_Key = ''node.kubernetes.io/unreachable'',
              Toleration_Effect = ''NoExecute'', Toleration_Operator = ''Exists'',
              TolerationSeconds = Some 120\<rparr>]
      in \<lparr>Template_Annotations = podTemplateAnnotations,
          Template_Labels = labels,
          Volumes = metal3Volumes P,
          InitContainers = initContainers,
          Containers = containers,
          HostNetwork = True,
          DNSPolicy = ''ClusterFirstWithHostNet'',
          PriorityClassName = ''system-node-critical'',
          NodeSelector = [''node-role.kubernetes.io/master'' \<mapsto> []],
          RunAsNonRoot = Some False,
          ServiceAccountName = ''cluster-baremetal-operator'',
          Tolerations = tolerations\<rparr>)"

definition newMetal3Deployment :: "pkg \<Rightarrow> ProvisioningInfo \<Rightarrow> Deployment" where
  "newMetal3Deployment P info =
     (let selector =
            \<lparr>MatchLabels = [''k8s-app'' \<mapsto> metal3AppName, cboLabelName \<mapsto> stateService P],
             MatchExpressions = []\<rparr>;
          podSpecLabels = [''k8s-app'' \<mapsto> metal3AppName, cboLabelName \<mapsto> stateService P];
          template = newMetal3PodTemplateSpec P info podSpecLabels
      in \<lparr>Deployment_Name = baremetalDeploymentName,
          Deployment_Namespace = Namespace info,
          Deployment_Annotations = [cboOwnedAnnotation \<mapsto> []],
          Deployment_Labels = [''k8s-app'' \<mapsto> metal3AppName, cboLabelName \<mapsto> stateService P],
          ControllerReference = None,
          Replicas = Some 1,
          Selector = Some selector,
          Template = template,
          Strategy = ''Recreate'',
          Conditions = []\<rparr>)"

subsection \<open>The orchestrator and the libraries around it\<close>

text \<open>An \<^verbatim>\<open>error\<close>: one that a collaborator returned, or one wrapped by
  \<^verbatim>\<open>fmt.Errorf(msg + ": %w", e)\<close>.\<close>

datatype err =
    ApiError string
  | Errorf string err

text \<open>
  The collaborators of a reconcile, each by what it answers: the owner-reference
  library, the generation bookkeeping of \<^verbatim>\<open>resourcemerge\<close>, the apply of
  \<^verbatim>\<open>resourceapply.ApplyDeployment\<close> (result object, changed flag, error), the get
  and the delete of the deployments client (by namespace and name), and
  \<^verbatim>\<open>apierrors.IsNotFound\<close>, which \<^verbatim>\<open>client.IgnoreNotFound\<close> consults.
  The generations of the configuration's status are an opaque value of type \<open>'g\<close>.
\<close>

record 'g Orchestrator =
  SetControllerReference :: "Provisioning \<Rightarrow> Deployment \<Rightarrow> err option"
  ExpectedDeploymentGeneration :: "Deployment \<Rightarrow> 'g \<Rightarrow> int"
  SetDeploymentGeneration :: "'g \<Rightarrow> Deployment option \<Rightarrow> 'g"
  ApplyDeployment :: "Deployment \<Rightarrow> int \<Rightarrow> Deployment option \<times> bool \<times> err option"
  Deployments_Get :: "string \<Rightarrow> string \<Rightarrow> Deployment option \<times> err option"
  Deployments_Delete :: "string \<Rightarrow> string \<Rightarrow> err option"
  IsNotFound :: "err \<Rightarrow> bool"








subsection \<open>The status query\<close>

fun getDeploymentCondition_loop :: "DeploymentCondition list \<Rightarrow> DeploymentConditionType" where
  "getDeploymentCondition_loop [] = DeploymentProgressing"
| "getDeploymentCondition_loop (cond # rest) =
     (if Condition_Status cond = ConditionTrue then Condition_Type cond
      else getDeploymentCondition_loop rest)"

definition getDeploymentCondition :: "Deployment \<Rightarrow> DeploymentConditionType" where
  "getDeploymentCondition deployment = getDeploymentCondition_loop (Conditions deployment)"

text \<open>\<^verbatim>\<open>time.Since(t)\<close> is \<^verbatim>\<open>time.Now().Sub(t)\<close>: the difference of the two
  instants in nanoseconds, saturated to the range of a 64-bit \<^verbatim>\<open>time.Duration\<close>.\<close>

definition maxDuration :: int where "maxDuration = 2 ^ 63 - 1"
definition minDuration :: int where "minDuration = - (2 ^ 63)"

definition Since :: "int \<Rightarrow> int \<Rightarrow> int" where
  "Since now t =
     (if now - t > maxDuration then maxDuration
      else if now - t < minDuration then minDuration
      else now - t)"

text \<open>\<^verbatim>\<open>GetDeploymentState\<close>; \<open>startTime\<close> is the package variable
  \<^verbatim>\<open>deploymentRolloutStartTime\<close> and \<open>now\<close> the instant of the query. The
  configuration argument of the Go function is never read.\<close>

definition GetDeploymentState ::
  "'g Orchestrator \<Rightarrow> int \<Rightarrow> int \<Rightarrow> string \<Rightarrow> DeploymentConditionType \<times> err option" where
  "GetDeploymentState K startTime now targetNamespace =
     (case Deployments_Get K targetNamespace baremetalDeploymentName of
        (Some existing, None) \<Rightarrow>
          (let deploymentState = getDeploymentCondition existing
           in if deploymentState = DeploymentProgressing \<and>
                 deploymentRolloutTimeout \<le> Since now startTime
              then (DeploymentReplicaFailure, None)
              else (deploymentState, None))
      | (existing, e) \<Rightarrow> (DeploymentReplicaFailure, e))"

subsection \<open>Sample inputs\<close>

text \<open>Concrete values at which the results below are evaluated: the parameters of the
  package with the live-OS URL list and the IPA-availability answer to choose, and the
  facts of a reconcile with the network mode, the provisioning IP, the ISO URL and the
  proxy to choose.\<close>

definition sample_pkg :: "string list \<Rightarrow> bool \<Rightarrow> pkg" where
  "sample_pkg liveURLs ipaAvailable =
     \<lparr>provisioningIP = ''PROVISIONING_IP'',
      provisioningInterface = ''PROVISIONING_INTERFACE'',
      deployKernelUrl = ''DEPLOY_KERNEL_URL'',
      deployRamdiskUrl = ''DEPLOY_RAMDISK_URL'',
      ironicEndpoint = ''IRONIC_ENDPOINT'',
      ironicInspectorEndpoint = ''IRONIC_INSPECTOR_ENDPOINT'',
      httpPort = ''HTTP_PORT'',
      dhcpRange = ''DHCP_RANGE'',
      machineImageUrl = ''RHCOS_IMAGE_URL'',
      ipOptions = ''IP_OPTIONS'',
      httpPortName = ''http'',
      baremetalHttpPort_int32 = 6180,
      baremetalSecretName = ''metal3-mariadb-password'',
      baremetalSecretKey = ''password'',
      pullSecretName = ''pull-secret'',
      openshiftConfigSecretKey = ''.dockerconfigjson'',
      ironicSecretName = ''metal3-ironic-password'',
      ironicrpcSecretName = ''metal3-ironic-rpc-password'',
      inspectorSecretName = ''metal3-ironic-inspector-password'',
      ironicHtpasswdKey = ''htpasswd'',
      stateService = ''metal3-state'',
      imageVolumeMount =
        \<lparr>VolumeMount_Name = ''metal3-images'', MountPath = ''/shared/html/images'',
         ReadOnly = False\<rparr>,
      imageVolume_Name = ''metal3-images'',
      getMetal3DeploymentConfig = (\<lambda>name config. None),
      getPreProvisioningOSDownloadURLs = (\<lambda>config. liveURLs),
      isCoreOSIPAAvailable = (\<lambda>config. ipaAvailable)\<rparr>"

definition sample_info ::
  "ProvisioningNetwork \<Rightarrow> string \<Rightarrow> string \<Rightarrow> Proxy option \<Rightarrow> ProvisioningInfo" where
  "sample_info mode ip isoURL proxy =
     \<lparr>Images = \<lparr>BaremetalOperator = ''bmo'', Ironic = ''ironic'', IpaDownloader = ''ipa'',
                 MachineOsDownloader = ''mod'', StaticIpManager = ''sim''\<rparr>,
      ProvConfig =
        \<lparr>Spec = \<lparr>ProvisioningIP = ip, ProvisioningNetwork = mode,
                  PreProvisioningOSDownloadURLs = \<lparr>IsoURL = isoURL\<rparr>,
                  ProvisioningOSDownloadURL = [],
                  VirtualMediaViaExternalNetwork = False,
                  WatchAllNamespaces = False\<rparr>\<rparr>,
      MasterMacAddresses = [''00:3d:25:45:bf:e9'', ''00:3d:25:45:bf:ea''],
      SSHKey = ''ssh-rsa key'',
      NetworkStack = NetworkStackV4,
      Proxy = proxy,
      Namespace = ''openshift-machine-api''\<rparr>"


definition sample_deployment ::
  "LabelSelector option \<Rightarrow> DeploymentCondition list \<Rightarrow> Deployment" where
  "sample_deployment selector conditions =
     (newMetal3Deployment (sample_pkg [] True)
        (sample_info ProvisioningNetworkManaged [] [] None))
       \<lparr>Selector := selector, Conditions := conditions\<rparr>"

definition sample_orchestrator ::
  "Deployment option \<times> bool \<times> err option \<Rightarrow> Deployment option \<times> err option \<Rightarrow>
   err option \<Rightarrow> unit Orchestrator" where
  "sample_orchestrator applied fetched deleted =
     \<lparr>SetControllerReference = (\<lambda>owner deployment. None),
      ExpectedDeploymentGeneration = (\<lambda>deployment gens. 0),
      SetDeploymentGeneration = (\<lambda>gens deployment. gens),
      ApplyDeployment = (\<lambda>deployment expectedGeneration. applied),
      Deployments_Get = (\<lambda>ns name. fetched),
      Deployments_Delete = (\<lambda>ns name. deleted),
      IsNotFound = (\<lambda>e. e = ApiError ''NotFound'')\<rparr>"

subsection \<open>The proxy variables in the spec's words\<close>

text \<open>The variables the spec promises on every container: none when the proxy is absent,
  otherwise those of HTTP_PROXY, HTTPS_PROXY and NO_PROXY whose configured value is not
  empty. This definition follows the spec; \<open>envWithProxy\<close> above follows the code.\<close>

definition proxyVariables :: "Proxy option \<Rightarrow> EnvVar list" where
  "proxyVariables proxy =
     (case proxy of
        None \<Rightarrow> []
      | Some p \<Rightarrow>
          filter (\<lambda>v. EnvVar_Value v \<noteq> [])
            [\<lparr>EnvVar_Name = ''HTTP_PROXY'', EnvVar_Value = HTTPProxy (Proxy_Status p),
              EnvVar_ValueFrom = None\<rparr>,
             \<lparr>EnvVar_Name = ''HTTPS_PROXY'', EnvVar_Value = HTTPSProxy (Proxy_Status p),
              EnvVar_ValueFrom = None\<rparr>,
             \<lparr>EnvVar_Name = ''NO_PROXY'', EnvVar_Value = NoProxy (Proxy_Status p),
              EnvVar_ValueFrom = None\<rparr>])"

section \<open>Properties\<close>

subsection \<open>Auxiliary facts\<close>

text \<open>The loop of the final pass maps one function over the list.\<close>

lemma injectProxyAndCA_loop_map:
  "injectProxyAndCA_loop proxy acc cs =
     acc @ map (\<lambda>c. c\<lparr>Env := envWithProxy proxy (Env c),
                        VolumeMounts := mountsWithTrustedCA (VolumeMounts c)\<rparr>) cs"
  by (induction cs arbitrary: acc) simp_all

lemma injectProxyAndCA_map:
  "injectProxyAndCA cs proxy =
     map (\<lambda>c. c\<lparr>Env := envWithProxy proxy (Env c),
                  VolumeMounts := mountsWithTrustedCA (VolumeMounts c)\<rparr>) cs"
  by (simp add: injectProxyAndCA_def injectProxyAndCA_loop_map)

lemma envWithProxy_append: "envWithProxy proxy envVars = envVars @ proxyVariables proxy"
  by (cases proxy) (simp_all add: envWithProxy_def proxyVariables_def Let_def)

lemma map_Name_injectProxyAndCA: "map Name (injectProxyAndCA cs proxy) = map Name cs"
  by (simp add: injectProxyAndCA_map comp_def)

lemma injectProxyAndCA_nth:
  "i < length cs \<Longrightarrow>
   injectProxyAndCA cs proxy ! i =
     (cs ! i)\<lparr>Env := Env (cs ! i) @ proxyVariables proxy,
              VolumeMounts := mountsWithTrustedCA (VolumeMounts (cs ! i))\<rparr>"
  by (simp add: injectProxyAndCA_map envWithProxy_append)

text \<open>The names of the rendered containers, in order.\<close>

lemmas container_defs =
  createContainerMetal3BaremetalOperator_def createContainerMetal3Mariadb_def
  createContainerMetal3Httpd_def createContainerMetal3IronicConductor_def
  createContainerIronicInspectorRamdiskLogs_def createContainerMetal3IronicApi_def
  createContainerIronicDeployRamdiskLogs_def createContainerMetal3IronicInspector_def
  createContainerMetal3StaticIpManager_def createContainerMetal3Dnsmasq_def

lemmas initContainer_defs =
  createInitContainerStaticIpSet_def createInitContainerMachineOsDownloader_def
  createInitContainerConfigureCoreOSIPA_def createInitContainerIpaDownloader_def

lemma Name_containers [simp]:
  "Name (createContainerMetal3BaremetalOperator P images config) = ''metal3-baremetal-operator''"
  "Name (createContainerMetal3Mariadb P images) = ''metal3-mariadb''"
  "Name (createContainerMetal3Httpd P images config macs sshKey) = ''metal3-httpd''"
  "Name (createContainerMetal3IronicConductor P images config macs sshKey) = ''metal3-ironic-conductor''"
  "Name (createContainerIronicInspectorRamdiskLogs images) = ''ironic-inspector-ramdisk-logs''"
  "Name (createContainerMetal3IronicApi P images config macs) = ''metal3-ironic-api''"
  "Name (createContainerIronicDeployRamdiskLogs images) = ''ironic-deploy-ramdisk-logs''"
  "Name (createContainerMetal3IronicInspector P images config macs) = ''metal3-ironic-inspector''"
  "Name (createContainerMetal3StaticIpManager P images config macs) = ''metal3-static-ip-manager''"
  "Name (createContainerMetal3Dnsmasq P images config macs) = ''metal3-dnsmasq''"
  by (simp_all add: container_defs Let_def)

lemma Name_initContainers [simp]:
  "Name (createInitContainerStaticIpSet P images config) = ''metal3-static-ip-set''"
  "Name (createInitContainerMachineOsDownloader P info urls live ipo) = ''metal3-machine-os-downloader''"
  "Name (createInitContainerConfigureCoreOSIPA P info) = ''metal3-configure-coreos-ipa''"
  "Name (createInitContainerIpaDownloader P images) = ''metal3-ipa-downloader''"
  by (simp_all add: initContainer_defs Let_def)

lemma map_Name_newMetal3Containers:
  "map Name (newMetal3Containers P info) =
     [''metal3-baremetal-operator'', ''metal3-mariadb'', ''metal3-httpd'',
      ''metal3-ironic-conductor'', ''ironic-inspector-ramdisk-logs'', ''metal3-ironic-api'',
      ''ironic-deploy-ramdisk-logs'', ''metal3-ironic-inspector''] @
     (if ProvisioningIP (Spec (ProvConfig info)) \<noteq> [] \<and>
         ProvisioningNetwork (Spec (ProvConfig info)) \<noteq> ProvisioningNetworkDisabled
      then [''metal3-static-ip-manager''] else []) @
     (if ProvisioningNetwork (Spec (ProvConfig info)) \<noteq> ProvisioningNetworkDisabled
      then [''metal3-dnsmasq''] else [])"
  by (simp add: newMetal3Containers_def map_Name_injectProxyAndCA
      newMetal3Containers_assembled_def Let_def)

lemma map_Name_newMetal3InitContainers:
  "map Name (newMetal3InitContainers P info) =
     (if ProvisioningIP (Spec (ProvConfig info)) \<noteq> [] \<and>
         ProvisioningNetwork (Spec (ProvConfig info)) \<noteq> ProvisioningNetworkDisabled
      then [''metal3-static-ip-set''] else []) @
     (if getPreProvisioningOSDownloadURLs P (Spec (ProvConfig info)) \<noteq> []
      then ''metal3-machine-os-downloader'' #
           (if IsoURL (PreProvisioningOSDownloadURLs (Spec (ProvConfig info))) \<noteq> []
            then [''metal3-configure-coreos-ipa''] else [])
      else []) @
     (if ProvisioningOSDownloadURL (Spec (ProvConfig info)) \<noteq> []
      then [''metal3-machine-os-downloader''] else []) @
     (if \<not> isCoreOSIPAAvailable P (Spec (ProvConfig info))
      then [''metal3-ipa-downloader''] else [])"
  by (simp add: newMetal3InitContainers_def map_Name_injectProxyAndCA
      newMetal3InitContainers_assembled_def Let_def)

text \<open>Projections of the sample inputs.\<close>

lemma sample_pkg_simps:
  "getPreProvisioningOSDownloadURLs (sample_pkg liveURLs ipaAvailable) config = liveURLs"
  "isCoreOSIPAAvailable (sample_pkg liveURLs ipaAvailable) config = ipaAvailable"
  "machineImageUrl (sample_pkg liveURLs ipaAvailable) = ''RHCOS_IMAGE_URL''"
  "ipOptions (sample_pkg liveURLs ipaAvailable) = ''IP_OPTIONS''"
  by (simp_all add: sample_pkg_def)

lemma sample_info_simps:
  "ProvisioningIP (Spec (ProvConfig (sample_info mode ip isoURL proxy))) = ip"
  "ProvisioningNetwork (Spec (ProvConfig (sample_info mode ip isoURL proxy))) = mode"
  "IsoURL (PreProvisioningOSDownloadURLs (Spec (ProvConfig (sample_info mode ip isoURL proxy)))) = isoURL"
  "ProvisioningOSDownloadURL (Spec (ProvConfig (sample_info mode ip isoURL proxy))) = []"
  "MasterMacAddresses (sample_info mode ip isoURL proxy) =
     [''00:3d:25:45:bf:e9'', ''00:3d:25:45:bf:ea'']"
  "NetworkStack (sample_info mode ip isoURL proxy) = NetworkStackV4"
  "Proxy (sample_info mode ip isoURL proxy) = proxy"
  by (simp_all add: sample_info_def)

lemma sample_orchestrator_simps:
  "SetControllerReference (sample_orchestrator applied fetched deleted) owner d = None"
  "ApplyDeployment (sample_orchestrator applied fetched deleted) d g = applied"
  "Deployments_Get (sample_orchestrator applied fetched deleted) ns name = fetched"
  "Deployments_Delete (sample_orchestrator applied fetched deleted) ns name = deleted"
  "IsNotFound (sample_orchestrator applied fetched deleted) e = (e = ApiError ''NotFound'')"
  by (simp_all add: sample_orchestrator_def)



lemma live_downloader_position:
  assumes live: "getPreProvisioningOSDownloadURLs P (Spec (ProvConfig info)) \<noteq> []"
  defines "i \<equiv> (if ProvisioningIP (Spec (ProvConfig info)) \<noteq> [] \<and>
                   ProvisioningNetwork (Spec (ProvConfig info)) \<noteq> ProvisioningNetworkDisabled
                then 1 else 0 :: nat)"
  shows "i < length (newMetal3InitContainers_assembled P info) \<and>
         newMetal3InitContainers_assembled P info ! i =
           createInitContainerMachineOsDownloader P info
             (Join (getPreProvisioningOSDownloadURLs P (Spec (ProvConfig info))) '','') True True"
  using live by (simp add: i_def newMetal3InitContainers_assembled_def Let_def nth_append)

text \<open>\<open>getDeploymentCondition\<close> reports the first condition whose status is true, and
  \<open>DeploymentProgressing\<close> when none is.\<close>

lemma getDeploymentCondition_loop_first_true:
  "\<forall>c \<in> set pre. Condition_Status c \<noteq> ConditionTrue \<Longrightarrow>
   Condition_Status cond = ConditionTrue \<Longrightarrow>
   getDeploymentCondition_loop (pre @ cond # post) = Condition_Type cond"
  by (induction pre) simp_all

lemma getDeploymentCondition_loop_none_true:
  "\<forall>c \<in> set conds. Condition_Status c \<noteq> ConditionTrue \<Longrightarrow>
   getDeploymentCondition_loop conds = DeploymentProgressing"
  by (induction conds) simp_all

subsection \<open>Selector-conflict recovery\<close>




subsection \<open>The proxy and trusted-CA pass\<close>




subsection \<open>The rollout timeout\<close>

text \<open>C3, as the code has it. When the deployment is fetched and
  \<open>getDeploymentCondition\<close> reports \<open>DeploymentProgressing\<close> (the first true
  condition is Progressing, or no condition is true), the state is overridden to
  \<open>DeploymentReplicaFailure\<close> exactly when the elapsed time is at least five minutes.
  So it is ReplicaFailure after more than five minutes and still Progressing at 4:59.\<close>

theorem rollout_timeout:
  assumes fetched: "Deployments_Get K ns baremetalDeploymentName = (Some existing, None)"
    and progressing: "getDeploymentCondition existing = DeploymentProgressing"
  shows "GetDeploymentState K startTime now ns =
           (if 5 * Minute \<le> Since now startTime then (DeploymentReplicaFailure, None)
            else (DeploymentProgressing, None)) \<and>
         (5 * Minute < Since now startTime \<longrightarrow>
            GetDeploymentState K startTime now ns = (DeploymentReplicaFailure, None)) \<and>
         (Since now startTime = 4 * Minute + 59 * 1000000000 \<longrightarrow>
            GetDeploymentState K startTime now ns = (DeploymentProgressing, None))"
  using fetched progressing
  by (simp add: GetDeploymentState_def deploymentRolloutTimeout_def Minute_def)

text \<open>The theorem at 5:01 and at 4:59 after the rollout start.\<close>

theorem rollout_timeout_witness:
  "GetDeploymentState
     (sample_orchestrator (None, False, None)
        (Some (sample_deployment None
           [\<lparr>Condition_Type = DeploymentAvailable, Condition_Status = ConditionFalse\<rparr>,
            \<lparr>Condition_Type = DeploymentProgressing, Condition_Status = ConditionTrue\<rparr>]), None)
        None)
     1000 301000001000 ''openshift-machine-api'' = (DeploymentReplicaFailure, None) \<and>
   GetDeploymentState
     (sample_orchestrator (None, False, None)
        (Some (sample_deployment None
           [\<lparr>Condition_Type = DeploymentAvailable, Condition_Status = ConditionFalse\<rparr>,
            \<lparr>Condition_Type = DeploymentProgressing, Condition_Status = ConditionTrue\<rparr>]), None)
        None)
     1000 299000001000 ''openshift-machine-api'' = (DeploymentProgressing, None)"
proof -
  let ?d = "sample_deployment None
           [\<lparr>Condition_Type = DeploymentAvailable, Condition_Status = ConditionFalse\<rparr>,
            \<lparr>Condition_Type = DeploymentProgressing, Condition_Status = ConditionTrue\<rparr>]"
  let ?K = "sample_orchestrator (None, False, None) (Some ?d, None) None"
  have g: "Deployments_Get ?K ''openshift-machine-api'' baremetalDeploymentName = (Some ?d, None)"
    by (simp add: sample_orchestrator_simps)
  have p: "getDeploymentCondition ?d = DeploymentProgressing"
    by (simp add: getDeploymentCondition_def sample_deployment_def)
  show ?thesis
    using rollout_timeout [OF g p, of 1000 301000001000]
          rollout_timeout [OF g p, of 1000 299000001000]
    by (simp add: Since_def maxDuration_def minDuration_def Minute_def)
qed

text \<open>C3 as stated fails at the boundary: at exactly five minutes the elapsed time does not
  exceed the timeout, and the state is overridden all the same.\<close>

theorem rollout_timeout_counterexample:
  "getDeploymentCondition (sample_deployment None
     [\<lparr>Condition_Type = DeploymentProgressing, Condition_Status = ConditionTrue\<rparr>]) =
     DeploymentProgressing \<and>
   Since 300000000000 0 = 5 * Minute \<and>
   \<not> 5 * Minute < Since 300000000000 0 \<and>
   GetDeploymentState
     (sample_orchestrator (None, False, None)
        (Some (sample_deployment None
           [\<lparr>Condition_Type = DeploymentProgressing, Condition_Status = ConditionTrue\<rparr>]), None)
        None)
     0 300000000000 ''openshift-machine-api'' = (DeploymentReplicaFailure, None)"
  by (simp add: GetDeploymentState_def getDeploymentCondition_def sample_deployment_def
      sample_orchestrator_simps Since_def maxDuration_def minDuration_def Minute_def
      deploymentRolloutTimeout_def)

subsection \<open>Which containers are rendered\<close>

text \<open>With the network mode Disabled, no provisioning IP, no live-OS URLs and no
  single-asset URL, the init-container list is decided by \<open>isCoreOSIPAAvailable\<close>
  alone: it is empty when the assets are available and holds the IPA downloader alone when
  they are not. The container list has neither the static-IP refresher nor the DHCP/DNS
  service.\<close>

lemma bare_disabled_rendering:
  assumes "ProvisioningNetwork (Spec (ProvConfig info)) = ProvisioningNetworkDisabled"
    and "ProvisioningIP (Spec (ProvConfig info)) = []"
    and "getPreProvisioningOSDownloadURLs P (Spec (ProvConfig info)) = []"
    and "ProvisioningOSDownloadURL (Spec (ProvConfig info)) = []"
  shows "map Name (newMetal3InitContainers P info) =
           (if isCoreOSIPAAvailable P (Spec (ProvConfig info)) then []
            else [''metal3-ipa-downloader''])"
    and "''metal3-static-ip-manager'' \<notin> set (map Name (newMetal3Containers P info))"
    and "''metal3-dnsmasq'' \<notin> set (map Name (newMetal3Containers P info))"
  using assms
  by (simp_all add: map_Name_newMetal3Containers map_Name_newMetal3InitContainers)

text \<open>C5, as the code has it. Before the final pass, the web server, the conductor, the API
  server, the inspector, the static-IP refresher and the DHCP/DNS service end their
  environment with PROVISIONING_MACS, the comma-joined MAC addresses. The operator ends with
  METAL3_AUTH_ROOT_DIR, the database has the password reference only, and the two log
  sidecars have no environment. There is no other container.\<close>

theorem macs_last_where_appended:
  "\<forall>c \<in> set (newMetal3Containers_assembled P info).
     (Name c \<in> {''metal3-httpd'', ''metal3-ironic-conductor'', ''metal3-ironic-api'',
                ''metal3-ironic-inspector'', ''metal3-static-ip-manager'', ''metal3-dnsmasq''} \<longrightarrow>
        Env c \<noteq> [] \<and>
        last (Env c) = \<lparr>EnvVar_Name = ''PROVISIONING_MACS'',
                        EnvVar_Value = Join (MasterMacAddresses info) '','',
                        EnvVar_ValueFrom = None\<rparr>) \<and>
     (Name c = ''metal3-baremetal-operator'' \<longrightarrow>
        last (Env c) = \<lparr>EnvVar_Name = ''METAL3_AUTH_ROOT_DIR'', EnvVar_Value = ''/auth'',
                        EnvVar_ValueFrom = None\<rparr>) \<and>
     (Name c = ''metal3-mariadb'' \<longrightarrow> Env c = [mariadbPassword P]) \<and>
     (Name c \<in> {''ironic-inspector-ramdisk-logs'', ''ironic-deploy-ramdisk-logs''} \<longrightarrow>
        Env c = []) \<and>
     Name c \<in> {''metal3-baremetal-operator'', ''metal3-mariadb'', ''metal3-httpd'',
               ''metal3-ironic-conductor'', ''ironic-inspector-ramdisk-logs'',
               ''metal3-ironic-api'', ''ironic-deploy-ramdisk-logs'', ''metal3-ironic-inspector'',
               ''metal3-static-ip-manager'', ''metal3-dnsmasq''}"
  by (simp add: newMetal3Containers_assembled_def Let_def container_defs
      envWithMasterMacAddresses_def metal3AuthRootDir_def)

text \<open>The theorem at the web server of a sample configuration.\<close>

theorem macs_last_where_appended_witness:
  "Name (newMetal3Containers_assembled (sample_pkg [] True)
           (sample_info ProvisioningNetworkManaged [] [] None) ! 2) = ''metal3-httpd'' \<and>
   last (Env (newMetal3Containers_assembled (sample_pkg [] True)
           (sample_info ProvisioningNetworkManaged [] [] None) ! 2)) =
     \<lparr>EnvVar_Name = ''PROVISIONING_MACS'',
      EnvVar_Value = ''00:3d:25:45:bf:e9,00:3d:25:45:bf:ea'',
      EnvVar_ValueFrom = None\<rparr>"
proof -
  let ?cs = "newMetal3Containers_assembled (sample_pkg [] True)
               (sample_info ProvisioningNetworkManaged [] [] None)"
  have len: "2 < length ?cs"
    by (simp add: newMetal3Containers_assembled_def Let_def sample_info_def)
  have name: "Name (?cs ! 2) = ''metal3-httpd''"
    by (simp add: newMetal3Containers_assembled_def Let_def)
  from len have "?cs ! 2 \<in> set ?cs" by (rule nth_mem)
  with macs_last_where_appended [of "sample_pkg [] True"
         "sample_info ProvisioningNetworkManaged [] [] None"] name
  have "last (Env (?cs ! 2)) =
     \<lparr>EnvVar_Name = ''PROVISIONING_MACS'',
      EnvVar_Value = Join (MasterMacAddresses (sample_info ProvisioningNetworkManaged [] [] None)) '','',
      EnvVar_ValueFrom = None\<rparr>"
    by simp
  then show ?thesis using name by (simp add: sample_info_def)
qed

text \<open>C5 as stated fails: the database's last variable is not PROVISIONING_MACS, and a log
  sidecar has no variable at all.\<close>

theorem macs_not_last_counterexample:
  "Name (newMetal3Containers_assembled (sample_pkg [] True)
           (sample_info ProvisioningNetworkManaged [] [] None) ! 1) = ''metal3-mariadb'' \<and>
   last (Env (newMetal3Containers_assembled (sample_pkg [] True)
           (sample_info ProvisioningNetworkManaged [] [] None) ! 1)) \<noteq>
     \<lparr>EnvVar_Name = ''PROVISIONING_MACS'',
      EnvVar_Value = Join (MasterMacAddresses (sample_info ProvisioningNetworkManaged [] [] None)) '','',
      EnvVar_ValueFrom = None\<rparr> \<and>
   Name (newMetal3Containers_assembled (sample_pkg [] True)
           (sample_info ProvisioningNetworkManaged [] [] None) ! 4) = ''ironic-inspector-ramdisk-logs'' \<and>
   Env (newMetal3Containers_assembled (sample_pkg [] True)
           (sample_info ProvisioningNetworkManaged [] [] None) ! 4) = []"
  by (simp add: newMetal3Containers_assembled_def Let_def createContainerMetal3Mariadb_def
      createContainerIronicInspectorRamdiskLogs_def mariadbPassword_def)

text \<open>C6. The container list has the DHCP/DNS service \<open>metal3-dnsmasq\<close> if and only if
  the network mode is not Disabled.\<close>

theorem dnsmasq_iff_not_Disabled:
  "(''metal3-dnsmasq'' \<in> set (map Name (newMetal3Containers P info))) =
   (ProvisioningNetwork (Spec (ProvConfig info)) \<noteq> ProvisioningNetworkDisabled)"
  by (simp add: map_Name_newMetal3Containers)

text \<open>The theorem in the modes Unmanaged and Disabled.\<close>

theorem dnsmasq_iff_not_Disabled_witness:
  "''metal3-dnsmasq'' \<in> set (map Name (newMetal3Containers (sample_pkg [] True)
       (sample_info ProvisioningNetworkUnmanaged [] [] None))) \<and>
   ''metal3-dnsmasq'' \<notin> set (map Name (newMetal3Containers (sample_pkg [] True)
       (sample_info ProvisioningNetworkDisabled [] [] None)))"
  using dnsmasq_iff_not_Disabled [of "sample_pkg [] True"
          "sample_info ProvisioningNetworkUnmanaged [] [] None"]
        dnsmasq_iff_not_Disabled [of "sample_pkg [] True"
          "sample_info ProvisioningNetworkDisabled [] [] None"]
  by (simp add: sample_info_def)

text \<open>C7. The init container \<open>metal3-static-ip-set\<close> is rendered if and only if the
  container \<open>metal3-static-ip-manager\<close> is, and each of them exactly when a provisioning
  IP is configured and the network mode is not Disabled.\<close>

theorem static_ip_pair:
  "((''metal3-static-ip-set'' \<in> set (map Name (newMetal3InitContainers P info))) =
    (''metal3-static-ip-manager'' \<in> set (map Name (newMetal3Containers P info)))) \<and>
   ((''metal3-static-ip-set'' \<in> set (map Name (newMetal3InitContainers P info))) =
    (ProvisioningIP (Spec (ProvConfig info)) \<noteq> [] \<and>
     ProvisioningNetwork (Spec (ProvConfig info)) \<noteq> ProvisioningNetworkDisabled)) \<and>
   ((''metal3-static-ip-manager'' \<in> set (map Name (newMetal3Containers P info))) =
    (ProvisioningIP (Spec (ProvConfig info)) \<noteq> [] \<and>
     ProvisioningNetwork (Spec (ProvConfig info)) \<noteq> ProvisioningNetworkDisabled))"
  by (simp add: map_Name_newMetal3Containers map_Name_newMetal3InitContainers)

text \<open>The theorem with a provisioning IP, in the modes Managed and Disabled.\<close>

theorem static_ip_pair_witness:
  "''metal3-static-ip-set'' \<in> set (map Name (newMetal3InitContainers (sample_pkg [] True)
       (sample_info ProvisioningNetworkManaged ''172.22.0.3'' [] None))) \<and>
   ''metal3-static-ip-manager'' \<in> set (map Name (newMetal3Containers (sample_pkg [] True)
       (sample_info ProvisioningNetworkManaged ''172.22.0.3'' [] None))) \<and>
   ''metal3-static-ip-set'' \<notin> set (map Name (newMetal3InitContainers (sample_pkg [] True)
       (sample_info ProvisioningNetworkDisabled ''172.22.0.3'' [] None))) \<and>
   ''metal3-static-ip-manager'' \<notin> set (map Name (newMetal3Containers (sample_pkg [] True)
       (sample_info ProvisioningNetworkDisabled ''172.22.0.3'' [] None)))"
  using static_ip_pair [of "sample_pkg [] True"
          "sample_info ProvisioningNetworkManaged ''172.22.0.3'' [] None"]
        static_ip_pair [of "sample_pkg [] True"
          "sample_info ProvisioningNetworkDisabled ''172.22.0.3'' [] None"]
  by (simp add: sample_info_def)

text \<open>C8. The configurator \<open>metal3-configure-coreos-ipa\<close> is rendered if and only if the
  list of live-OS URLs is not empty and the ISO URL is set. With live-OS URLs and no ISO
  URL the downloader is rendered and the configurator is not. With live-OS URLs, the
  downloader stands right after the static-IP setter (first when there is none), runs
  \<open>get-live-images.sh\<close>, and its image-URL variable holds the URLs joined by commas in
  their order.\<close>

theorem coreos_ipa_configurator:
  "((''metal3-configure-coreos-ipa'' \<in> set (map Name (newMetal3InitContainers P info))) =
    (getPreProvisioningOSDownloadURLs P (Spec (ProvConfig info)) \<noteq> [] \<and>
     IsoURL (PreProvisioningOSDownloadURLs (Spec (ProvConfig info))) \<noteq> [])) \<and>
   (getPreProvisioningOSDownloadURLs P (Spec (ProvConfig info)) \<noteq> [] \<and>
    IsoURL (PreProvisioningOSDownloadURLs (Spec (ProvConfig info))) = [] \<longrightarrow>
      ''metal3-machine-os-downloader'' \<in> set (map Name (newMetal3InitContainers P info)) \<and>
      ''metal3-configure-coreos-ipa'' \<notin> set (map Name (newMetal3InitContainers P info))) \<and>
   (getPreProvisioningOSDownloadURLs P (Spec (ProvConfig info)) \<noteq> [] \<longrightarrow>
      (let i = (if ProvisioningIP (Spec (ProvConfig info)) \<noteq> [] \<and>
                   ProvisioningNetwork (Spec (ProvConfig info)) \<noteq> ProvisioningNetworkDisabled
                then 1 else 0 :: nat);
           downloader = newMetal3InitContainers P info ! i
       in i < length (newMetal3InitContainers P info) \<and>
          Name downloader = ''metal3-machine-os-downloader'' \<and>
          Command downloader = [''/usr/local/bin/get-live-images.sh''] \<and>
          Env downloader =
            [\<lparr>EnvVar_Name = machineImageUrl P,
              EnvVar_Value = Join (getPreProvisioningOSDownloadURLs P (Spec (ProvConfig info))) '','',
              EnvVar_ValueFrom = None\<rparr>,
             \<lparr>EnvVar_Name = ipOptions P,
              EnvVar_Value = ipOptionForMachineOsDownloader info,
              EnvVar_ValueFrom = None\<rparr>] @ proxyVariables (Proxy info)))"
proof (intro conjI impI)
  show "(''metal3-configure-coreos-ipa'' \<in> set (map Name (newMetal3InitContainers P info))) =
    (getPreProvisioningOSDownloadURLs P (Spec (ProvConfig info)) \<noteq> [] \<and>
     IsoURL (PreProvisioningOSDownloadURLs (Spec (ProvConfig info))) \<noteq> [])"
    by (simp add: map_Name_newMetal3InitContainers)
next
  assume "getPreProvisioningOSDownloadURLs P (Spec (ProvConfig info)) \<noteq> [] \<and>
    IsoURL (PreProvisioningOSDownloadURLs (Spec (ProvConfig info))) = []"
  then show "''metal3-machine-os-downloader'' \<in> set (map Name (newMetal3InitContainers P info))"
    and "''metal3-configure-coreos-ipa'' \<notin> set (map Name (newMetal3InitContainers P info))"
    by (simp_all add: map_Name_newMetal3InitContainers)
next
  assume live: "getPreProvisioningOSDownloadURLs P (Spec (ProvConfig info)) \<noteq> []"
  define i where "i = (if ProvisioningIP (Spec (ProvConfig info)) \<noteq> [] \<and>
                   ProvisioningNetwork (Spec (ProvConfig info)) \<noteq> ProvisioningNetworkDisabled
                then 1 else 0 :: nat)"
  from live_downloader_position [OF live]
  have pos: "i < length (newMetal3InitContainers_assembled P info)"
    and at: "newMetal3InitContainers_assembled P info ! i =
           createInitContainerMachineOsDownloader P info
             (Join (getPreProvisioningOSDownloadURLs P (Spec (ProvConfig info))) '','') True True"
    unfolding i_def by simp_all
  have len: "i < length (newMetal3InitContainers P info)"
    using pos by (simp add: newMetal3InitContainers_def injectProxyAndCA_map)
  have nth: "newMetal3InitContainers P info ! i =
      (createInitContainerMachineOsDownloader P info
             (Join (getPreProvisioningOSDownloadURLs P (Spec (ProvConfig info))) '','') True True)
        \<lparr>Env := Env (createInitContainerMachineOsDownloader P info
             (Join (getPreProvisioningOSDownloadURLs P (Spec (ProvConfig info))) '','') True True)
               @ proxyVariables (Proxy info),
         VolumeMounts := mountsWithTrustedCA (VolumeMounts (createInitContainerMachineOsDownloader P info
             (Join (getPreProvisioningOSDownloadURLs P (Spec (ProvConfig info))) '','') True True))\<rparr>"
    unfolding newMetal3InitContainers_def using injectProxyAndCA_nth [OF pos, of "Proxy info"] at
    by simp
  have "i < length (newMetal3InitContainers P info) \<and>
          Name (newMetal3InitContainers P info ! i) = ''metal3-machine-os-downloader'' \<and>
          Command (newMetal3InitContainers P info ! i) = [''/usr/local/bin/get-live-images.sh''] \<and>
          Env (newMetal3InitContainers P info ! i) =
            [\<lparr>EnvVar_Name = machineImageUrl P,
              EnvVar_Value = Join (getPreProvisioningOSDownloadURLs P (Spec (ProvConfig info))) '','',
              EnvVar_ValueFrom = None\<rparr>,
             \<lparr>EnvVar_Name = ipOptions P,
              EnvVar_Value = ipOptionForMachineOsDownloader info,
              EnvVar_ValueFrom = None\<rparr>] @ proxyVariables (Proxy info)"
    using len by (simp add: nth createInitContainerMachineOsDownloader_def Let_def)
  then show "(let i = (if ProvisioningIP (Spec (ProvConfig info)) \<noteq> [] \<and>
                   ProvisioningNetwork (Spec (ProvConfig info)) \<noteq> ProvisioningNetworkDisabled
                then 1 else 0 :: nat);
           downloader = newMetal3InitContainers P info ! i
       in i < length (newMetal3InitContainers P info) \<and>
          Name downloader = ''metal3-machine-os-downloader'' \<and>
          Command downloader = [''/usr/local/bin/get-live-images.sh''] \<and>
          Env downloader =
            [\<lparr>EnvVar_Name = machineImageUrl P,
              EnvVar_Value = Join (getPreProvisioningOSDownloadURLs P (Spec (ProvConfig info))) '','',
              EnvVar_ValueFrom = None\<rparr>,
             \<lparr>EnvVar_Name = ipOptions P,
              EnvVar_Value = ipOptionForMachineOsDownloader info,
              EnvVar_ValueFrom = None\<rparr>] @ proxyVariables (Proxy info))"
    unfolding Let_def i_def .
qed

text \<open>The theorem with an ISO URL among the live-OS URLs, and with two live-OS URLs and no
  ISO URL.\<close>

theorem coreos_ipa_configurator_witness:
  "''metal3-configure-coreos-ipa'' \<in> set (map Name (newMetal3InitContainers
       (sample_pkg [''http://mirror/rhcos-live.iso'', ''http://mirror/rhcos-kernel''] True)
       (sample_info ProvisioningNetworkManaged [] ''http://mirror/rhcos-live.iso'' None))) \<and>
   ''metal3-machine-os-downloader'' \<in> set (map Name (newMetal3InitContainers
       (sample_pkg [''http://mirror/rhcos-kernel'', ''http://mirror/rhcos-rootfs''] True)
       (sample_info ProvisioningNetworkManaged [] [] None))) \<and>
   ''metal3-configure-coreos-ipa'' \<notin> set (map Name (newMetal3InitContainers
       (sample_pkg [''http://mirror/rhcos-kernel'', ''http://mirror/rhcos-rootfs''] True)
       (sample_info ProvisioningNetworkManaged [] [] None))) \<and>
   Env (newMetal3InitContainers
       (sample_pkg [''http://mirror/rhcos-kernel'', ''http://mirror/rhcos-rootfs''] True)
       (sample_info ProvisioningNetworkManaged [] [] None) ! 0) =
     [\<lparr>EnvVar_Name = ''RHCOS_IMAGE_URL'',
       EnvVar_Value = ''http://mirror/rhcos-kernel,http://mirror/rhcos-rootfs'',
       EnvVar_ValueFrom = None\<rparr>,
      \<lparr>EnvVar_Name = ''IP_OPTIONS'', EnvVar_Value = ''ip=dhcp'', EnvVar_ValueFrom = None\<rparr>]"
  using coreos_ipa_configurator
          [of "sample_pkg [''http://mirror/rhcos-live.iso'', ''http://mirror/rhcos-kernel''] True"
              "sample_info ProvisioningNetworkManaged [] ''http://mirror/rhcos-live.iso'' None"]
        coreos_ipa_configurator
          [of "sample_pkg [''http://mirror/rhcos-kernel'', ''http://mirror/rhcos-rootfs''] True"
              "sample_info ProvisioningNetworkManaged [] [] None"]
  by (simp add: sample_info_simps sample_pkg_simps proxyVariables_def
      ipOptionForMachineOsDownloader_def Let_def)

subsection \<open>Errors of the status query\<close>

text \<open>C9. When the get of the deployment returns an error, or no object, the status query
  returns \<open>DeploymentReplicaFailure\<close> with that error, whatever the conditions and the
  elapsed time.\<close>

theorem get_failure_is_ReplicaFailure:
  assumes "snd (Deployments_Get K ns baremetalDeploymentName) \<noteq> None \<or>
           fst (Deployments_Get K ns baremetalDeploymentName) = None"
  shows "GetDeploymentState K startTime now ns =
           (DeploymentReplicaFailure, snd (Deployments_Get K ns baremetalDeploymentName))"
  using assms
  by (cases "Deployments_Get K ns baremetalDeploymentName")
     (auto simp add: GetDeploymentState_def split: option.splits)

text \<open>The theorem at a get that returns an object and an error.\<close>

theorem get_failure_is_ReplicaFailure_witness:
  "GetDeploymentState
     (sample_orchestrator (None, False, None)
        (Some (sample_deployment None
           [\<lparr>Condition_Type = DeploymentAvailable, Condition_Status = ConditionTrue\<rparr>]),
         Some (ApiError ''connection refused''))
        None)
     0 1000 ''openshift-machine-api'' =
     (DeploymentReplicaFailure, Some (ApiError ''connection refused''))"
  using get_failure_is_ReplicaFailure
     [of "sample_orchestrator (None, False, None)
        (Some (sample_deployment None
           [\<lparr>Condition_Type = DeploymentAvailable, Condition_Status = ConditionTrue\<rparr>]),
         Some (ApiError ''connection refused''))
        None" "''openshift-machine-api''" 0 1000]
  by (simp add: sample_orchestrator_simps)

subsection \<open>The frame of the final pass\<close>

text \<open>C10. The final pass returns a list of the same length, in the same order. Each
  container keeps every field but \<open>Env\<close> and \<open>VolumeMounts\<close>; its environment
  has the input environment as a prefix, and its mounts are the input mounts followed by
  one read-only trusted-CA mount at \<open>/etc/pki/ca-trust/extracted/pem\<close>, also when
  there is no proxy.\<close>

theorem injectProxyAndCA_frame:
  "length (injectProxyAndCA cs proxy) = length cs \<and>
   (\<forall>i < length cs.
      Name (injectProxyAndCA cs proxy ! i) = Name (cs ! i) \<and>
      Image (injectProxyAndCA cs proxy ! i) = Image (cs ! i) \<and>
      Command (injectProxyAndCA cs proxy ! i) = Command (cs ! i) \<and>
      Args (injectProxyAndCA cs proxy ! i) = Args (cs ! i) \<and>
      Ports (injectProxyAndCA cs proxy ! i) = Ports (cs ! i) \<and>
      Resources (injectProxyAndCA cs proxy ! i) = Resources (cs ! i) \<and>
      ImagePullPolicy (injectProxyAndCA cs proxy ! i) = ImagePullPolicy (cs ! i) \<and>
      SecurityContext (injectProxyAndCA cs proxy ! i) = SecurityContext (cs ! i) \<and>
      prefix (Env (cs ! i)) (Env (injectProxyAndCA cs proxy ! i)) \<and>
      VolumeMounts (injectProxyAndCA cs proxy ! i) =
        VolumeMounts (cs ! i) @
          [\<lparr>VolumeMount_Name = ''trusted-ca'',
            MountPath = ''/etc/pki/ca-trust/extracted/pem'', ReadOnly = True\<rparr>])"
proof (intro conjI allI impI)
  show "length (injectProxyAndCA cs proxy) = length cs"
    by (simp add: injectProxyAndCA_map)
next
  fix i assume i: "i < length cs"
  note nth = injectProxyAndCA_nth [OF i, of proxy]
  show "Name (injectProxyAndCA cs proxy ! i) = Name (cs ! i)" by (simp add: nth)
  show "Image (injectProxyAndCA cs proxy ! i) = Image (cs ! i)" by (simp add: nth)
  show "Command (injectProxyAndCA cs proxy ! i) = Command (cs ! i)" by (simp add: nth)
  show "Args (injectProxyAndCA cs proxy ! i) = Args (cs ! i)" by (simp add: nth)
  show "Ports (injectProxyAndCA cs proxy ! i) = Ports (cs ! i)" by (simp add: nth)
  show "Resources (injectProxyAndCA cs proxy ! i) = Resources (cs ! i)" by (simp add: nth)
  show "ImagePullPolicy (injectProxyAndCA cs proxy ! i) = ImagePullPolicy (cs ! i)"
    by (simp add: nth)
  show "SecurityContext (injectProxyAndCA cs proxy ! i) = SecurityContext (cs ! i)"
    by (simp add: nth)
  show "prefix (Env (cs ! i)) (Env (injectProxyAndCA cs proxy ! i))" by (simp add: nth)
  show "VolumeMounts (injectProxyAndCA cs proxy ! i) =
        VolumeMounts (cs ! i) @
          [\<lparr>VolumeMount_Name = ''trusted-ca'',
            MountPath = ''/etc/pki/ca-trust/extracted/pem'', ReadOnly = True\<rparr>]"
    by (simp add: nth mountsWithTrustedCA_def)
qed

text \<open>The theorem on the database container, without a proxy.\<close>

theorem injectProxyAndCA_frame_witness:
  "length (injectProxyAndCA [createContainerMetal3Mariadb (sample_pkg [] True)
       (Images (sample_info ProvisioningNetworkManaged [] [] None))] None) = 1 \<and>
   Name (injectProxyAndCA [createContainerMetal3Mariadb (sample_pkg [] True)
       (Images (sample_info ProvisioningNetworkManaged [] [] None))] None ! 0) = ''metal3-mariadb'' \<and>
   VolumeMounts (injectProxyAndCA [createContainerMetal3Mariadb (sample_pkg [] True)
       (Images (sample_info ProvisioningNetworkManaged [] [] None))] None ! 0) =
     [\<lparr>VolumeMount_Name = ''metal3-shared'', MountPath = ''/shared'', ReadOnly = False\<rparr>,
      \<lparr>VolumeMount_Name = ''trusted-ca'',
       MountPath = ''/etc/pki/ca-trust/extracted/pem'', ReadOnly = True\<rparr>]"
  using injectProxyAndCA_frame [of "[createContainerMetal3Mariadb (sample_pkg [] True)
       (Images (sample_info ProvisioningNetworkManaged [] [] None))]" None]
  by (simp add: createContainerMetal3Mariadb_def sharedVolumeMount_def baremetalSharedVolume_def)

end
